theory Spec2Isabelle
  imports Main "HOL-Library.Sublist"
begin

section \<open>The calls table of app.py (class CallDatabase)\<close>

text \<open>
  The table \<open>calls\<close> of app.py has the key column \<open>id\<close> and thirteen further
  columns; \<open>phone_number\<close>, \<open>caller_name\<close>, \<open>caller_phone\<close> and
  \<open>account_action\<close> are declared NOT NULL.  A row holds in each column a value of
  SQLite: NULL, a text or an integer.  A date and time, which the source writes as
  text, is represented by its number of seconds, so that the comparison made by the
  cleanup statement can be computed.
\<close>

datatype sqlval = Null | Text string | Integer int | Timestamp int

datatype column =
  Phone_number | Caller_name | Caller_phone | Account_action | Additional_info
  | Status | Call_id | Created_at | Completed_at | Duration | Transcript
  | Success | Error_message

record row =
  rid :: string
  col :: "column \<Rightarrow> sqlval"

type_synonym table = "row list"

text \<open>
  \<open>call_data\<close> is the dictionary that \<open>create_call\<close> builds and hands to
  \<open>save_call\<close>; \<open>save_call\<close> reads the key \<open>call_id\<close> with the default \<open>''\<close>.
  The value under \<open>additional_info\<close> is \<open>None\<close> when the request carries a JSON
  null there, and is then stored as NULL.
\<close>

record call_data =
  cd_id :: string
  cd_phone_number :: string
  cd_caller_name :: string
  cd_caller_phone :: string
  cd_account_action :: string
  cd_additional_info :: "string option"
  cd_status :: string

definition new_row :: "call_data \<Rightarrow> int \<Rightarrow> row" where
  "new_row cd now =
     \<lparr> rid = cd_id cd,
       col = (\<lambda>c. case c of
                Phone_number \<Rightarrow> Text (cd_phone_number cd)
              | Caller_name \<Rightarrow> Text (cd_caller_name cd)
              | Caller_phone \<Rightarrow> Text (cd_caller_phone cd)
              | Account_action \<Rightarrow> Text (cd_account_action cd)
              | Additional_info \<Rightarrow>
                  (case cd_additional_info cd of None \<Rightarrow> Null | Some s \<Rightarrow> Text s)
              | Status \<Rightarrow> Text (cd_status cd)
              | Call_id \<Rightarrow> Text []
              | Created_at \<Rightarrow> Timestamp now
              | _ \<Rightarrow> Null) \<rparr>"

text \<open>
  \<open>save_call\<close>: the INSERT fails on a key that is already in the table (\<open>id\<close> is the
  primary key); the exception is caught and the method returns False.
\<close>

definition save_call :: "call_data \<Rightarrow> int \<Rightarrow> table \<Rightarrow> bool \<times> table" where
  "save_call cd now db =
     (if cd_id cd \<in> set (map rid db) then (False, db)
      else (True, db @ [new_row cd now]))"

text \<open>
  An UPDATE statement assigns the listed columns in a row.  Where a column is listed
  more than once, SQLite ignores all but the rightmost assignment.
\<close>

definition set_columns :: "(column \<times> sqlval) list \<Rightarrow> row \<Rightarrow> row" where
  "set_columns pairs r =
     r\<lparr> col := (\<lambda>c. case map_of (rev pairs) c of Some v \<Rightarrow> v | None \<Rightarrow> col r c) \<rparr>"

text \<open>
  One item of the dictionary \<open>updates\<close> of \<open>update_call\<close>: the name of a column
  other than the key \<open>id\<close>, with a value of the type that the table declares for the
  column (a text, an integer, a boolean, a date and time) or with \<open>None\<close>.  SQLite
  stores such a value as it is given: a text in a TEXT column, an integer in the INTEGER
  column, a boolean as 1 or 0, the text of a date and time, and \<open>None\<close> as NULL.
\<close>

datatype field_update =
  Set_phone_number "string option" | Set_caller_name "string option"
  | Set_caller_phone "string option" | Set_account_action "string option"
  | Set_additional_info "string option" | Set_status "string option"
  | Set_call_id "string option" | Set_created_at "int option"
  | Set_completed_at "int option" | Set_duration "int option"
  | Set_transcript "string option" | Set_success "bool option"
  | Set_error_message "string option"

definition text_value :: "string option \<Rightarrow> sqlval" where
  "text_value v = (case v of None \<Rightarrow> Null | Some s \<Rightarrow> Text s)"

definition time_value :: "int option \<Rightarrow> sqlval" where
  "time_value v = (case v of None \<Rightarrow> Null | Some t \<Rightarrow> Timestamp t)"

definition integer_value :: "int option \<Rightarrow> sqlval" where
  "integer_value v = (case v of None \<Rightarrow> Null | Some n \<Rightarrow> Integer n)"

definition boolean_value :: "bool option \<Rightarrow> sqlval" where
  "boolean_value v = (case v of None \<Rightarrow> Null | Some b \<Rightarrow> Integer (if b then 1 else 0))"

fun assigned :: "field_update \<Rightarrow> column \<times> sqlval" where
  "assigned (Set_phone_number v) = (Phone_number, text_value v)"
| "assigned (Set_caller_name v) = (Caller_name, text_value v)"
| "assigned (Set_caller_phone v) = (Caller_phone, text_value v)"
| "assigned (Set_account_action v) = (Account_action, text_value v)"
| "assigned (Set_additional_info v) = (Additional_info, text_value v)"
| "assigned (Set_status v) = (Status, text_value v)"
| "assigned (Set_call_id v) = (Call_id, text_value v)"
| "assigned (Set_created_at v) = (Created_at, time_value v)"
| "assigned (Set_completed_at v) = (Completed_at, time_value v)"
| "assigned (Set_duration v) = (Duration, integer_value v)"
| "assigned (Set_transcript v) = (Transcript, text_value v)"
| "assigned (Set_success v) = (Success, boolean_value v)"
| "assigned (Set_error_message v) = (Error_message, text_value v)"

text \<open>
  \<open>assignment updates c\<close> is the value that the statement built from \<open>updates\<close>
  assigns to the column \<open>c\<close>, if it assigns one.  The table declares four columns
  NOT NULL; \<open>violates_not_null updates\<close> holds when the statement assigns NULL to one
  of them.
\<close>

definition assignment :: "field_update list \<Rightarrow> column \<Rightarrow> sqlval option" where
  "assignment updates c = map_of (rev (map assigned updates)) c"

definition not_null_columns :: "column list" where
  "not_null_columns = [Phone_number, Caller_name, Caller_phone, Account_action]"

definition violates_not_null :: "field_update list \<Rightarrow> bool" where
  "violates_not_null updates =
     list_ex (\<lambda>c. assignment updates c = Some Null) not_null_columns"

text \<open>
  \<open>update_call\<close>: \<open>updates\<close> is the dictionary of the source, given by its items.
  The statement \<open>UPDATE calls SET k1 = ?, ... WHERE id = ?\<close> assigns the listed columns
  in every row whose key is \<open>call_id\<close>.  With no item the statement text is
  \<open>UPDATE calls SET  WHERE id = ?\<close>, which SQLite rejects.  When a row has the key and
  the statement assigns NULL to a column declared NOT NULL, SQLite raises an integrity
  error and changes nothing.  In both cases the exception is caught, the method returns
  False and the table is as before.  A key that matches no row is not an error: the
  method returns True.
\<close>

definition update_call :: "string \<Rightarrow> field_update list \<Rightarrow> table \<Rightarrow> bool \<times> table" where
  "update_call call_id updates db =
     (if updates = [] then (False, db)
      else if list_ex (\<lambda>r. rid r = call_id) db \<and> violates_not_null updates then (False, db)
      else (True, map (\<lambda>r. if rid r = call_id then set_columns (map assigned updates) r
                              else r) db))"

definition get_call :: "string \<Rightarrow> table \<Rightarrow> row option" where
  "get_call call_id db = find (\<lambda>r. rid r = call_id) db"

definition column_of :: "string \<Rightarrow> column \<Rightarrow> table \<Rightarrow> sqlval option" where
  "column_of call_id c db = map_option (\<lambda>r. col r c) (get_call call_id db)"

section \<open>The transcript classifier (analyze\_call\_success)\<close>

text \<open>
  Text is a list of 8-bit characters.  \<open>lower\<close> is \<open>str.lower\<close> on such text as far as
  the phrases can see it: the letters A to Z become a to z, every other character is
  kept.  \<open>phrase in transcript_lower\<close> is \<^const>\<open>sublist\<close>, the test for a
  contiguous part.
\<close>

definition lower_char :: "char \<Rightarrow> char" where
  "lower_char c =
     (case map_of (zip ''ABCDEFGHIJKLMNOPQRSTUVWXYZ'' ''abcdefghijklmnopqrstuvwxyz'') c of
        Some l \<Rightarrow> l | None \<Rightarrow> c)"

definition lower :: "string \<Rightarrow> string" where
  "lower t = map lower_char t"

definition success_phrases :: "string list" where
  "success_phrases =
     [''account adjusted'', ''adjustment made'', ''change completed'',
      ''updated successfully'', ''modification complete'', ''done'',
      ''processed'', ''completed'', ''confirmed'', ''yes, that's done'']"

definition failure_phrases :: "string list" where
  "failure_phrases =
     [''cannot do that'', ''unable to'', ''not authorized'', ''need verification'',
      ''callback required'', ''supervisor needed'', ''system down'']"

text \<open>
  \<open>sum(1 for phrase in phrases if phrase in transcript_lower)\<close>: one for each phrase of
  the list that is found in the text.
\<close>

definition score :: "string list \<Rightarrow> string \<Rightarrow> nat" where
  "score phrases transcript_lower =
     sum_list (map (\<lambda>phrase. if sublist phrase transcript_lower then 1 else 0) phrases)"

text \<open>
  The transcript is \<open>None\<close> where the source has Python's \<open>None\<close>; \<open>not transcript\<close>
  holds for \<open>None\<close> and for the empty text.  The parameter \<open>call_id\<close> is not used by the
  source either.
\<close>

definition analyze_call_success :: "string option \<Rightarrow> string \<Rightarrow> bool" where
  "analyze_call_success transcript call_id =
     (case transcript of
        None \<Rightarrow> False
      | Some t \<Rightarrow>
          if t = [] then False
          else score success_phrases (lower t) > score failure_phrases (lower t))"

text \<open>
  \<open>CallService._analyze_call_success\<close> of services.py is the same function with
  longer phrase lists.
\<close>

definition svc_success_phrases :: "string list" where
  "svc_success_phrases =
     [''account adjusted'', ''adjustment made'', ''change completed'',
      ''updated successfully'', ''modification complete'', ''done'',
      ''processed'', ''completed'', ''confirmed'', ''yes, that's done'',
      ''request processed'', ''change applied'', ''update complete'']"

definition svc_failure_phrases :: "string list" where
  "svc_failure_phrases =
     [''cannot do that'', ''unable to'', ''not authorized'', ''need verification'',
      ''callback required'', ''supervisor needed'', ''system down'',
      ''not possible'', ''denied'', ''rejected'', ''error occurred'']"

definition svc_analyze_call_success :: "string option \<Rightarrow> bool" where
  "svc_analyze_call_success transcript =
     (case transcript of
        None \<Rightarrow> False
      | Some t \<Rightarrow>
          if t = [] then False
          else score svc_success_phrases (lower t) > score svc_failure_phrases (lower t))"

text \<open>
  The classifier in the words of the specification, which counts occurrences: the
  number of places of the text at which a phrase starts, summed over the phrases of
  the list.  It is compared with the code below; no definition of the code uses it.
\<close>

definition occurrences :: "string \<Rightarrow> string \<Rightarrow> nat" where
  "occurrences phrase t = length (filter (prefix phrase) (suffixes t))"

definition occurrence_count :: "string list \<Rightarrow> string \<Rightarrow> nat" where
  "occurrence_count phrases t = sum_list (map (\<lambda>phrase. occurrences phrase t) phrases)"

definition classify_by_occurrences :: "string option \<Rightarrow> bool" where
  "classify_by_occurrences transcript =
     (case transcript of
        None \<Rightarrow> False
      | Some t \<Rightarrow> occurrence_count success_phrases (lower t)
                   > occurrence_count failure_phrases (lower t))"

text \<open>
  \<open>no_new_match n b\<close>: the phrase \<open>n\<close> is not found in \<open>b\<close>, and no proper end of \<open>n\<close>
  is a beginning of \<open>b\<close>; then appending \<open>b\<close> to a text cannot make \<open>n\<close> appear.
\<close>

definition no_new_match :: "string \<Rightarrow> string \<Rightarrow> bool" where
  "no_new_match n b =
     (\<not> sublist n b \<and> list_all (\<lambda>i. \<not> prefix (drop i n) b) [1..<length n])"

section \<open>The provider, as the poll loop sees it\<close>

text \<open>
  The answers of the remote service for one call.  \<open>get_call_status n\<close> is the
  dictionary returned to the \<open>n\<close>-th poll of the loop: \<open>sr_error\<close> is the value under
  the key \<open>error\<close> when that key is there, \<open>sr_calls\<close> the list under
  \<open>response.calls\<close> (of each entry only its \<open>status\<close>, when it has one), \<open>sr_duration\<close>
  the value under \<open>duration\<close>.  \<open>get_call_transcript\<close> returns either an error or the
  transcript, which is \<open>None\<close> for a JSON null.  \<open>create_call_result\<close> is what
  \<open>SynthflowAPI.create_call\<close> returns: an error text, or the call id of the provider.
\<close>

record status_result =
  sr_error :: "string option"
  sr_calls :: "string option list option"
  sr_duration :: "int option"

datatype transcript_result = Transcript_error string | Transcript_of "string option"

datatype create_result = Create_error string | Create_ok "string option"

record provider =
  create_call_result :: create_result
  get_call_status :: "nat \<Rightarrow> status_result"
  get_call_transcript :: transcript_result

definition call_status_of :: "status_result \<Rightarrow> string" where
  "call_status_of status_result =
     (case sr_calls status_result of
        Some (c # cs) \<Rightarrow> (case c of Some s \<Rightarrow> s | None \<Rightarrow> ''unknown'')
      | _ \<Rightarrow> ''unknown'')"

section \<open>The routes and the poll loop of app.py\<close>

datatype response = Json_ok "(string \<times> string) list" | Json_error nat string

definition required_fields :: "string list" where
  "required_fields = [''phone_number'', ''caller_name'', ''caller_phone'', ''account_action'']"

text \<open>
  The request body is a JSON object whose members are texts or null: a dictionary
  from field names to \<open>JString\<close> or \<open>JNull\<close>.  \<open>dict_get data field\<close> is
  \<open>data.get(field)\<close>, which is \<open>None\<close> for an absent field and for a null;
  \<open>dict_get_default data field d\<close> is \<open>data.get(field, d)\<close>, which is \<open>d\<close> only
  for an absent field.  \<open>not data.get(field)\<close> holds when the field is absent, null or
  empty.
\<close>

datatype json = JNull | JString string

definition dict_get :: "(string \<Rightarrow> json option) \<Rightarrow> string \<Rightarrow> string option" where
  "dict_get data field =
     (case data field of None \<Rightarrow> None | Some JNull \<Rightarrow> None | Some (JString s) \<Rightarrow> Some s)"

definition dict_get_default ::
  "(string \<Rightarrow> json option) \<Rightarrow> string \<Rightarrow> string \<Rightarrow> string option" where
  "dict_get_default data field d =
     (case data field of None \<Rightarrow> Some d | Some JNull \<Rightarrow> None | Some (JString s) \<Rightarrow> Some s)"

definition truthy :: "string option \<Rightarrow> bool" where
  "truthy v = (case v of None \<Rightarrow> False | Some s \<Rightarrow> s \<noteq> [])"

definition text_of :: "string option \<Rightarrow> string" where
  "text_of v = (case v of None \<Rightarrow> [] | Some s \<Rightarrow> s)"

fun first_missing :: "(string \<Rightarrow> json option) \<Rightarrow> string list \<Rightarrow> string option" where
  "first_missing data [] = None"
| "first_missing data (field # rest) =
     (if \<not> truthy (dict_get data field) then Some field else first_missing data rest)"

text \<open>
  \<open>create_call\<close>: \<open>new_id\<close> stands for the fresh \<open>uuid4\<close>, \<open>now\<close> for the time of the
  insertion.  The third component of the result is the background thread that the route
  starts (the arguments of \<open>initiate_call_async\<close>), or \<open>None\<close> when it starts none; the
  route itself makes no request to the provider.
\<close>

definition create_call ::
  "(string \<Rightarrow> json option) \<Rightarrow> string \<Rightarrow> int \<Rightarrow> table \<Rightarrow> response \<times> table \<times> call_data option" where
  "create_call data new_id now db =
     (case first_missing data required_fields of
        Some field \<Rightarrow> (Json_error 400 (''Missing required field: '' @ field), db, None)
      | None \<Rightarrow>
          let cd = \<lparr> cd_id = new_id,
                     cd_phone_number = text_of (dict_get data ''phone_number''),
                     cd_caller_name = text_of (dict_get data ''caller_name''),
                     cd_caller_phone = text_of (dict_get data ''caller_phone''),
                     cd_account_action = text_of (dict_get data ''account_action''),
                     cd_additional_info = dict_get_default data ''additional_info'' [],
                     cd_status = ''initiating'' \<rparr>
          in case save_call cd now db of
               (False, db') \<Rightarrow> (Json_error 500 ''Failed to save call to database'', db', None)
             | (True, db') \<Rightarrow>
                 (Json_ok [(''call_id'', new_id), (''message'', ''Call initiated successfully'')],
                  db', Some cd))"

text \<open>
  \<open>terminate_call\<close> (the route): \<open>SynthflowAPI.terminate_call\<close> only reports success,
  so the route always writes the status and the completion time and answers with
  success.
\<close>

definition terminate_call :: "string \<Rightarrow> int \<Rightarrow> table \<Rightarrow> response \<times> table" where
  "terminate_call call_id now db =
     (Json_ok [(''message'', ''Call terminated successfully'')],
      snd (update_call call_id
             [Set_status (Some ''terminated''), Set_completed_at (Some now)] db))"

definition finished :: "string list" where
  "finished = [''completed'', ''failed'', ''no_answer'', ''busy'']"

definition max_polls :: nat where
  "max_polls = 12"

text \<open>
  One pass through the body of the \<open>while\<close> loop of \<open>monitor_call_progress\<close>, after
  \<open>poll_count\<close> has been incremented to \<open>n\<close>.  The result says whether the loop is left
  (\<open>break\<close>), and gives \<open>last_status\<close> and the table after the pass.  \<open>clock n\<close> is the
  time at the \<open>n\<close>-th poll.
\<close>

definition monitor_iteration ::
  "provider \<Rightarrow> (nat \<Rightarrow> int) \<Rightarrow> string \<Rightarrow> nat \<Rightarrow> string option \<Rightarrow> table
     \<Rightarrow> bool \<times> string option \<times> table" where
  "monitor_iteration P clock call_id n last_status db =
     (let status_result = get_call_status P n in
      if sr_error status_result \<noteq> None then (n > 3, last_status, db)
      else
        let call_status = call_status_of status_result;
            last_status' = (if Some call_status \<noteq> last_status then Some call_status
                            else last_status)
        in
          if call_status \<in> set finished then
            let transcript = (case get_call_transcript P of
                                Transcript_error e \<Rightarrow> Some []
                              | Transcript_of t \<Rightarrow> t);
                success = analyze_call_success transcript call_id
            in (True, last_status',
                snd (update_call call_id
                       [Set_status (Some call_status),
                        Set_completed_at (Some (clock n)),
                        Set_duration (Some (case sr_duration status_result of
                                              None \<Rightarrow> 0 | Some d \<Rightarrow> d)),
                        Set_transcript transcript,
                        Set_success (Some success)] db))
          else if call_status = ''queue'' \<and> n \<ge> 6 then
            (True, last_status',
             snd (update_call call_id
                    [Set_status (Some ''failed''),
                     Set_error_message
                       (Some ''Call stuck in queue - likely missing phone number or account issue''),
                     Set_completed_at (Some (clock n))] db))
          else (False, last_status', db))"

function monitor_loop ::
  "provider \<Rightarrow> (nat \<Rightarrow> int) \<Rightarrow> string \<Rightarrow> nat \<Rightarrow> string option \<Rightarrow> table
     \<Rightarrow> nat \<times> string option \<times> table" where
  "monitor_loop P clock call_id poll_count last_status db =
     (if poll_count < max_polls then
        (case monitor_iteration P clock call_id (poll_count + 1) last_status db of
           (True, last_status', db') \<Rightarrow> (poll_count + 1, last_status', db')
         | (False, last_status', db') \<Rightarrow>
             monitor_loop P clock call_id (poll_count + 1) last_status' db')
      else (poll_count, last_status, db))"
  by pat_completeness auto
termination
  by (relation "measure (\<lambda>(P, clock, call_id, poll_count, last_status, db). max_polls - poll_count)")
     auto

text \<open>
  \<open>monitor_call_progress\<close>: the loop from \<open>poll_count = 0\<close> and \<open>last_status = None\<close>,
  then the test for the timeout.  The identifier of the call at the provider only
  selects the answers, which \<open>P\<close> holds.  The messages sent to the dashboard
  (\<open>socketio.emit\<close>) and the log do not touch the table and are left out.  The handler
  of the outer \<open>try\<close> is not reached: on the answers modelled here the body raises no
  exception, and \<open>update_call\<close> catches its own.
\<close>

definition monitor_call_progress ::
  "provider \<Rightarrow> (nat \<Rightarrow> int) \<Rightarrow> string \<Rightarrow> table \<Rightarrow> table" where
  "monitor_call_progress P clock call_id db =
     (case monitor_loop P clock call_id 0 None db of
        (poll_count, last_status, db') \<Rightarrow>
          if poll_count \<ge> max_polls \<and>
             (case last_status of None \<Rightarrow> True | Some s \<Rightarrow> s \<notin> set finished)
          then snd (update_call call_id
                      [Set_status (Some ''timeout''),
                       Set_error_message (Some ''Call monitoring timeout''),
                       Set_completed_at (Some (clock poll_count))] db')
          else db')"

text \<open>
  Two ways to speak about the answer to the \<open>n\<close>-th poll.  \<open>answers P n s\<close>: the answer
  carries no error and its status is \<open>s\<close>.  \<open>keeps_polling P n\<close>: the answer makes the
  loop body neither leave the loop nor write to the table, by the tests of the body in
  their order.
\<close>

definition answers :: "provider \<Rightarrow> nat \<Rightarrow> string \<Rightarrow> bool" where
  "answers P n s =
     (sr_error (get_call_status P n) = None \<and> call_status_of (get_call_status P n) = s)"

definition keeps_polling :: "provider \<Rightarrow> nat \<Rightarrow> bool" where
  "keeps_polling P n =
     (if sr_error (get_call_status P n) \<noteq> None then n \<le> 3
      else call_status_of (get_call_status P n) \<notin> set finished \<and>
           \<not> (call_status_of (get_call_status P n) = ''queue'' \<and> n \<ge> 6))"

text \<open>
  \<open>initiate_call_async\<close>, the body of the background thread.
\<close>

definition initiate_call_async ::
  "provider \<Rightarrow> (nat \<Rightarrow> int) \<Rightarrow> string \<Rightarrow> table \<Rightarrow> table" where
  "initiate_call_async P clock call_id db =
     (let db1 = snd (update_call call_id [Set_status (Some ''checking_phone_config'')] db) in
      case create_call_result P of
        Create_error error_msg \<Rightarrow>
          snd (update_call call_id
                 [Set_status (Some ''failed''), Set_error_message (Some error_msg),
                  Set_completed_at (Some (clock 0))] db1)
      | Create_ok synthflow_call_id \<Rightarrow>
          let db2 = snd (update_call call_id
                           [Set_status (Some ''initiated''),
                            Set_call_id synthflow_call_id] db1)
          in if truthy synthflow_call_id \<and> synthflow_call_id \<noteq> Some ''unknown''
             then monitor_call_progress P clock call_id db2
             else snd (update_call call_id
                         [Set_status (Some ''failed''),
                          Set_error_message (Some ''No valid call ID returned from Synthflow''),
                          Set_completed_at (Some (clock 0))] db2))"

text \<open>
  \<open>cleanup_stuck_calls\<close> (the route): one UPDATE statement; the row count it reports
  and the table after it.  \<open>datetime(created_at) < datetime('now', '-30 minutes')\<close>
  compares whole seconds, and is not true of a value that is no date.
\<close>

definition stuck :: "int \<Rightarrow> row \<Rightarrow> bool" where
  "stuck now r =
     ((col r Status = Text ''in_progress'' \<or> col r Status = Text ''dialing'') \<and>
      (case col r Created_at of Timestamp t \<Rightarrow> t < now - 30 * 60 | _ \<Rightarrow> False))"

definition cleanup_stuck_calls :: "int \<Rightarrow> table \<Rightarrow> nat \<times> table" where
  "cleanup_stuck_calls now db =
     (length (filter (stuck now) db),
      map (\<lambda>r. if stuck now r
               then set_columns [(Status, Text ''timeout''), (Completed_at, Timestamp now)] r
               else r) db)"

section \<open>Request validation (src/utils/validators.py)\<close>

text \<open>
  \<open>str.strip\<close> removes the white space of Python at both ends; for 8-bit characters
  these are the codes 9 to 13, 28 to 32, 133 and 160.
\<close>

definition is_space :: "char \<Rightarrow> bool" where
  "is_space c = (of_char c \<in> {9, 10, 11, 12, 13, 28, 29, 30, 31, 32, 133, 160 :: nat})"

definition strip :: "string \<Rightarrow> string" where
  "strip s = rev (dropWhile is_space (rev (dropWhile is_space s)))"

definition is_digit :: "char \<Rightarrow> bool" where
  "is_digit c = (c \<in> set ''0123456789'')"

text \<open>
  \<open>validate_phone_number\<close>: \<open>re.sub(r'[^\d+]', '', phone)\<close> keeps the digits and
  the plus signs; \<open>^(\+?1?)?[0-9]{10,14}$\<close> then asks for an optional plus sign, an
  optional 1, and ten to fourteen digits up to the end.
\<close>

definition phone_pattern :: "string \<Rightarrow> bool" where
  "phone_pattern cleaned =
     list_ex (\<lambda>p. prefix p cleaned \<and>
                 (let ds = drop (length p) cleaned
                  in list_all is_digit ds \<and> 10 \<le> length ds \<and> length ds \<le> 14))
       [''+1'', ''+'', ''1'', []]"

definition validate_phone_number :: "string \<Rightarrow> bool" where
  "validate_phone_number phone =
     (if phone = [] then False
      else phone_pattern (filter (\<lambda>c. is_digit c \<or> c = CHR ''+'') phone))"

definition validator_required_fields :: "string list" where
  "validator_required_fields =
     [''caller_name'', ''caller_phone'', ''phone_number'', ''account_action'']"

definition validate_call_request :: "(string \<Rightarrow> json option) \<Rightarrow> string list" where
  "validate_call_request data =
     concat (map (\<lambda>field. if \<not> truthy (dict_get data field) \<or> strip (text_of (dict_get data field)) = []
                          then [field @ '' is required''] else [])
               validator_required_fields)
     @ (if truthy (dict_get data ''caller_phone'') \<and> \<not> validate_phone_number (text_of (dict_get data ''caller_phone''))
        then [''caller_phone must be a valid phone number''] else [])
     @ (if truthy (dict_get data ''phone_number'') \<and> \<not> validate_phone_number (text_of (dict_get data ''phone_number''))
        then [''phone_number must be a valid phone number''] else [])
     @ (if truthy (dict_get data ''caller_name'') \<and> length (text_of (dict_get data ''caller_name'')) > 100
        then [''caller_name must be less than 100 characters''] else [])
     @ (if truthy (dict_get data ''account_action'') \<and> length (text_of (dict_get data ''account_action'')) > 1000
        then [''account_action must be less than 1000 characters''] else [])
     @ (if truthy (dict_get data ''additional_info'') \<and> length (text_of (dict_get data ''additional_info'')) > 2000
        then [''additional_info must be less than 2000 characters''] else [])"

text \<open>
  The route \<open>create_call\<close> of src/web/routes.py answers a request whose list of
  validation errors is not empty with status 400 and that list under \<open>details\<close>,
  before it builds a call: \<open>Some\<close> of the answer, or \<open>None\<close> when the request goes on
  to the call service.
\<close>

definition routes_create_call_rejection ::
  "(string \<Rightarrow> json option) \<Rightarrow> (nat \<times> string \<times> string list) option" where
  "routes_create_call_rejection data =
     (let validation_errors = validate_call_request data
      in if validation_errors \<noteq> [] then Some (400, ''Validation failed'', validation_errors)
         else None)"

section \<open>The call service (src/core/services.py)\<close>

text \<open>
  Modelled from the spec: the enumeration \<open>CallStatus\<close> of src/core/models.py, which
  is not among the sources.  Its members are the states of section 4.4 of the
  specification; tests/unit/test\_models.py names all of them but \<open>TIMEOUT\<close>.
\<close>

datatype CallStatus =
  PENDING | INITIATING | DIALING | IN_PROGRESS
  | COMPLETED | FAILED | NO_ANSWER | BUSY | TERMINATED | TIMEOUT

text \<open>
  Modelled from the spec: the class \<open>CallRequest\<close> of src/core/models.py, which is
  not among the sources.  Its fields are those of section 3 of the specification, under
  the names that src/web/routes.py and the tests use.
\<close>

record CallRequest =
  caller_name :: string
  caller_phone :: string
  phone_number :: string
  account_action :: string
  additional_info :: string

text \<open>
  Modelled from the spec: the class \<open>Call\<close> of src/core/models.py, which is not among
  the sources.  Its fields are those of section 3 of the specification, under the names
  that src/web/routes.py and the tests use (\<open>call_ident\<close> is the field \<open>id\<close>); times
  are in seconds.
\<close>

record Call =
  call_ident :: string
  request :: CallRequest
  synthflow_call_id :: "string option"
  status :: CallStatus
  created_at :: int
  completed_at :: "int option"
  duration :: "int option"
  transcript :: "string option"
  success :: "bool option"
  error_message :: "string option"
  metadata :: "(string \<times> string) list"

text \<open>
  The dictionary \<open>updates\<close> that the service hands to \<open>DatabaseService.update_call\<close>:
  a field is \<open>Some\<close> when its key is in the dictionary.  The service uses these six
  keys.
\<close>

record call_updates =
  u_status :: "CallStatus option"
  u_synthflow_call_id :: "string option option"
  u_completed_at :: "int option"
  u_transcript :: "string option"
  u_success :: "bool option"
  u_error_message :: "string option"

definition no_updates :: call_updates where
  "no_updates = \<lparr> u_status = None, u_synthflow_call_id = None, u_completed_at = None,
                  u_transcript = None, u_success = None, u_error_message = None \<rparr>"

text \<open>
  The class \<open>DatabaseService\<close> of src/core/database.py is not among the sources
  either; the four definitions that follow take its contract from section 4.2 of the
  specification.  The store is the list of the calls it holds.
\<close>

type_synonym store = "Call list"

text \<open>
  Modelled from the spec: \<open>DatabaseService.get_call\<close>, which is not among the
  sources.  \<open>get(callId)\<close> returns the call with that identifier, or nothing.
\<close>

definition db_get_call :: "store \<Rightarrow> string \<Rightarrow> Call option" where
  "db_get_call st call_id = find (\<lambda>c. call_ident c = call_id) st"

text \<open>
  Modelled from the spec: the partial merge of \<open>DatabaseService.update_call\<close>, which
  is not among the sources.  Only the fields present in the partial are overwritten,
  absent fields keep their values.
\<close>

definition merge_updates :: "call_updates \<Rightarrow> Call \<Rightarrow> Call" where
  "merge_updates u c =
     c\<lparr> status := (case u_status u of None \<Rightarrow> status c | Some v \<Rightarrow> v),
        synthflow_call_id := (case u_synthflow_call_id u of None \<Rightarrow> synthflow_call_id c | Some v \<Rightarrow> v),
        completed_at := (case u_completed_at u of None \<Rightarrow> completed_at c | Some v \<Rightarrow> Some v),
        transcript := (case u_transcript u of None \<Rightarrow> transcript c | Some v \<Rightarrow> Some v),
        success := (case u_success u of None \<Rightarrow> success c | Some v \<Rightarrow> Some v),
        error_message := (case u_error_message u of None \<Rightarrow> error_message c | Some v \<Rightarrow> Some v) \<rparr>"

text \<open>
  Modelled from the spec: \<open>DatabaseService.update_call\<close>, which is not among the
  sources.  \<open>update(callId, partialFields)\<close> answers \<open>NotFound\<close> (here False) for an
  unknown identifier and otherwise merges the partial into the stored call.
\<close>

definition db_update_call :: "store \<Rightarrow> string \<Rightarrow> call_updates \<Rightarrow> bool \<times> store" where
  "db_update_call st call_id u =
     (case db_get_call st call_id of
        None \<Rightarrow> (False, st)
      | Some c \<Rightarrow> (True, map (\<lambda>c. if call_ident c = call_id then merge_updates u c else c) st))"

text \<open>
  Modelled from the spec: \<open>DatabaseService.get_calls\<close> without a status filter, which
  is not among the sources.  \<open>list(limit, offset)\<close> returns the calls newest-created
  first, from \<open>offset\<close> on and at most \<open>limit\<close> of them.
\<close>

definition db_get_calls :: "store \<Rightarrow> nat \<Rightarrow> nat \<Rightarrow> Call list" where
  "db_get_calls st limit offset = take limit (drop offset (rev (sort_key created_at st)))"

text \<open>
  \<open>CallService.terminate_call\<close>, with \<open>now\<close> for \<open>datetime.now()\<close>.
\<close>

definition svc_terminate_call :: "store \<Rightarrow> int \<Rightarrow> string \<Rightarrow> bool \<times> store" where
  "svc_terminate_call st now call_id =
     (case db_get_call st call_id of
        None \<Rightarrow> (False, st)
      | Some call \<Rightarrow>
          if status call \<notin> set [DIALING, IN_PROGRESS] then (False, st)
          else db_update_call st call_id
                 (no_updates\<lparr> u_status := Some TERMINATED, u_completed_at := Some now \<rparr>))"

text \<open>
  \<open>CallService.cleanup_stuck_calls\<close>: the calls to clean are collected from the
  1000 newest calls, then updated one by one; the result is the number of updates
  that succeeded and the store after them.
\<close>

definition svc_is_stuck :: "int \<Rightarrow> Call \<Rightarrow> bool" where
  "svc_is_stuck cutoff_time call =
     (status call \<in> set [DIALING, IN_PROGRESS, INITIATING] \<and> created_at call < cutoff_time)"

definition cleanup_updates :: "int \<Rightarrow> call_updates" where
  "cleanup_updates now =
     no_updates\<lparr> u_status := Some FAILED,
                 u_error_message := Some ''Call timeout - automatically cleaned up'',
                 u_completed_at := Some now \<rparr>"

fun svc_cleanup_loop :: "int \<Rightarrow> Call list \<Rightarrow> nat \<Rightarrow> store \<Rightarrow> nat \<times> store" where
  "svc_cleanup_loop now [] count st = (count, st)"
| "svc_cleanup_loop now (call # stuck_calls) count st =
     (case db_update_call st (call_ident call) (cleanup_updates now) of
        (True, st') \<Rightarrow> svc_cleanup_loop now stuck_calls (count + 1) st'
      | (False, st') \<Rightarrow> svc_cleanup_loop now stuck_calls count st')"

definition svc_cleanup_stuck_calls :: "store \<Rightarrow> int \<Rightarrow> nat \<times> store" where
  "svc_cleanup_stuck_calls st now =
     (let cutoff_time = now - 30 * 60;
          all_calls = db_get_calls st 1000 0;
          stuck_calls = filter (svc_is_stuck cutoff_time) all_calls
      in svc_cleanup_loop now stuck_calls 0 st)"

section \<open>Example inputs\<close>

definition example_call_data :: call_data where
  "example_call_data =
     \<lparr> cd_id = ''call-1'', cd_phone_number = ''+15553334444'', cd_caller_name = ''Jane Doe'',
       cd_caller_phone = ''+15551112222'', cd_account_action = ''close account'',
       cd_additional_info = Some [], cd_status = ''initiating'' \<rparr>"

definition example_table :: table where
  "example_table = [new_row example_call_data 0]"

definition poll_ok :: "string \<Rightarrow> status_result" where
  "poll_ok s = \<lparr> sr_error = None, sr_calls = Some [Some s], sr_duration = None \<rparr>"

definition poll_error :: "string \<Rightarrow> status_result" where
  "poll_error e = \<lparr> sr_error = Some e, sr_calls = None, sr_duration = None \<rparr>"

text \<open>
  A provider that answers the first polls from a list and every later poll with a
  fixed answer; a clock that advances five seconds per poll.
\<close>

definition scripted :: "status_result list \<Rightarrow> status_result \<Rightarrow> nat \<Rightarrow> status_result" where
  "scripted rs r n = (if 1 \<le> n \<and> n \<le> length rs then rs ! (n - 1) else r)"

definition example_provider :: "status_result list \<Rightarrow> status_result \<Rightarrow> provider" where
  "example_provider rs r =
     \<lparr> create_call_result = Create_ok (Some ''prov-1''),
       get_call_status = scripted rs r,
       get_call_transcript = Transcript_of (Some ''Your account has been closed. Confirmed.'') \<rparr>"

definition example_clock :: "nat \<Rightarrow> int" where
  "example_clock n = 5 * int n"

text \<open>
  A request without \<open>caller_name\<close> and with an empty \<open>phone_number\<close>.
\<close>

definition incomplete_request :: "string \<Rightarrow> json option" where
  "incomplete_request =
     map_of [(''phone_number'', JString []), (''caller_phone'', JString ''+15551112222''),
             (''account_action'', JString ''close account'')]"

text \<open>
  Two calls in progress, created 40 and 5 minutes before the time 2400, in the table
  of app.py and in the store of the call service; the store also holds a pending call
  created 40 minutes before.
\<close>

definition in_progress_row :: "string \<Rightarrow> int \<Rightarrow> row" where
  "in_progress_row i t =
     new_row (example_call_data\<lparr> cd_id := i, cd_status := ''in_progress'' \<rparr>) t"

definition example_rows :: table where
  "example_rows = [in_progress_row ''call-old'' 0, in_progress_row ''call-new'' 2100]"

definition example_call :: "string \<Rightarrow> CallStatus \<Rightarrow> int \<Rightarrow> Call" where
  "example_call i s t =
     \<lparr> call_ident = i,
       request = \<lparr> caller_name = ''Jane Doe'', caller_phone = ''+15551112222'',
                   phone_number = ''+15553334444'', account_action = ''close account'',
                   additional_info = [] \<rparr>,
       synthflow_call_id = None, status = s, created_at = t, completed_at = None,
       duration = None, transcript = None, success = None, error_message = None,
       metadata = [] \<rparr>"

definition example_store :: store where
  "example_store =
     [example_call ''call-old'' IN_PROGRESS 0, example_call ''call-new'' IN_PROGRESS 2100,
      example_call ''call-pending'' PENDING 0]"

text \<open>
  A store of 1001 calls: the call in progress created 40 minutes before the time 2400,
  and 1000 completed calls created after it.
\<close>

definition filler_ident :: "nat \<Rightarrow> string" where
  "filler_ident i = replicate (Suc i) CHR ''x''"

definition large_store :: store where
  "large_store =
     example_call ''call-old'' IN_PROGRESS 0
       # map (\<lambda>i. example_call (filler_ident i) COMPLETED (int i + 1)) [0..<1000]"

definition example_request :: "string \<Rightarrow> json option" where
  "example_request =
     map_of [(''phone_number'', JString ''+15553334444''), (''caller_name'', JString ''Jane Doe''),
             (''caller_phone'', JString ''+15551112222''),
             (''account_action'', JString ''close account'')]"

section \<open>Auxiliary facts about the table\<close>

lemma rid_new_row: "rid (new_row cd now) = cd_id cd"
  by (simp add: new_row_def)

lemma get_call_None_iff: "get_call cid db = None \<longleftrightarrow> cid \<notin> rid ` set db"
  by (auto simp: get_call_def find_None_iff)

lemma get_call_append_new:
  "get_call cid db = None \<Longrightarrow> rid r = cid \<Longrightarrow> get_call cid (db @ [r]) = Some r"
  unfolding get_call_def by (induction db) (auto split: if_splits)

lemma get_call_append_other:
  "rid r \<noteq> other \<Longrightarrow> get_call other (db @ [r]) = get_call other db"
  unfolding get_call_def by (induction db) auto

lemma first_missing_None_iff:
  "first_missing data fs = None \<longleftrightarrow> (\<forall>f \<in> set fs. truthy (dict_get data f))"
  by (induction fs) auto

lemma rid_set_columns: "rid (set_columns updates r) = rid r"
  by (simp add: set_columns_def)

lemma get_call_map:
  assumes "\<And>r. rid (f r) = rid r"
  shows "get_call cid (map f db) = map_option f (get_call cid db)"
  unfolding get_call_def using assms by (induction db) auto

lemma get_call_rid: "get_call cid db = Some r \<Longrightarrow> rid r = cid \<and> r \<in> set db"
  unfolding get_call_def by (auto simp: find_Some_iff)


lemma get_call_update_call:
  "get_call cid (snd (update_call cid' updates db)) =
     (if updates \<noteq> [] \<and> cid = cid' \<and> \<not> violates_not_null updates
      then map_option (set_columns (map assigned updates)) (get_call cid db)
      else get_call cid db)"
proof -
  let ?f = "\<lambda>r. if rid r = cid' then set_columns (map assigned updates) r else r"
  have m: "get_call cid (map ?f db) = map_option ?f (get_call cid db)"
    by (rule get_call_map) (simp add: rid_set_columns)
  show ?thesis
  proof (cases "get_call cid db")
    case None
    then show ?thesis using m by (auto simp: update_call_def)
  next
    case (Some r)
    then have r: "rid r = cid" "r \<in> set db" by (auto dest: get_call_rid)
    then have ex: "cid = cid' \<Longrightarrow> list_ex (\<lambda>r. rid r = cid') db"
      by (auto simp: list_ex_iff)
    show ?thesis using Some r m ex by (auto simp: update_call_def)
  qed
qed

lemma column_of_update_call:
  "get_call cid db = Some r \<Longrightarrow> updates \<noteq> [] \<Longrightarrow> \<not> violates_not_null updates \<Longrightarrow>
   column_of cid c (snd (update_call cid updates db)) =
     Some (case assignment updates c of Some v \<Rightarrow> v | None \<Rightarrow> col r c)"
  by (simp add: column_of_def get_call_update_call set_columns_def assignment_def)

text \<open>
  The facts that evaluate the assignments of a given list of items.
\<close>

lemmas assignment_simps =
  assignment_def violates_not_null_def not_null_columns_def
  text_value_def time_value_def integer_value_def boolean_value_def

lemma example_table_stored:
  "get_call ''call-1'' example_table = Some (new_row example_call_data 0)"
  by (simp add: example_table_def get_call_def rid_new_row example_call_data_def)

section \<open>Auxiliary facts about the poll loop\<close>

declare monitor_loop.simps [simp del]

lemma monitor_iteration_keeps:
  "keeps_polling P n \<Longrightarrow> \<exists>ls'. monitor_iteration P clock cid n ls db = (False, ls', db)"
  by (auto simp: keeps_polling_def monitor_iteration_def Let_def split: if_splits)

lemma monitor_loop_skip:
  assumes "\<forall>i. pc < i \<and> i \<le> k \<longrightarrow> keeps_polling P i" "pc \<le> k" "k \<le> max_polls"
  shows "\<exists>ls'. monitor_loop P clock cid pc ls db = monitor_loop P clock cid k ls' db"
  using assms
proof (induction k)
  case 0
  then show ?case by auto
next
  case (Suc k)
  show ?case
  proof (cases "pc = Suc k")
    case True
    then show ?thesis by auto
  next
    case False
    with Suc.prems have le: "pc \<le> k" "k < max_polls" by auto
    from Suc.prems have "\<forall>i. pc < i \<and> i \<le> k \<longrightarrow> keeps_polling P i" by auto
    with Suc.IH le obtain ls1 where
      eq1: "monitor_loop P clock cid pc ls db = monitor_loop P clock cid k ls1 db" by auto
    from Suc.prems le have "keeps_polling P (Suc k)" by auto
    from monitor_iteration_keeps [OF this] obtain ls2 where
      it: "monitor_iteration P clock cid (Suc k) ls1 db = (False, ls2, db)" by blast
    have "monitor_loop P clock cid k ls1 db = monitor_loop P clock cid (Suc k) ls2 db"
      using le it by (subst monitor_loop.simps) simp
    with eq1 show ?thesis by auto
  qed
qed

lemma monitor_loop_break:
  assumes "monitor_iteration P clock cid (Suc k) ls db = (True, ls', db')" "k < max_polls"
  shows "monitor_loop P clock cid k ls db = (Suc k, ls', db')"
  using assms by (subst monitor_loop.simps) simp


lemma monitor_iteration_queue:
  assumes "answers P n ''queue''" "n \<ge> 6"
  shows "monitor_iteration P clock cid n ls db = (True, Some ''queue'',
            snd (update_call cid
                    [Set_status (Some ''failed''),
                     Set_error_message
                       (Some ''Call stuck in queue - likely missing phone number or account issue''),
                     Set_completed_at (Some (clock n))] db))"
  using assms
  by (auto simp: answers_def monitor_iteration_def Let_def finished_def)

lemma example_provider_answers:
  "length rs < n \<Longrightarrow> answers (example_provider rs (poll_ok s)) n s"
  by (simp add: answers_def example_provider_def scripted_def poll_ok_def call_status_of_def)

section \<open>Auxiliary facts about the classifier\<close>

lemma score_eq_card:
  assumes "distinct phrases"
  shows "score phrases t = card {p \<in> set phrases. sublist p t}"
proof -
  have "score phrases t = length (filter (\<lambda>p. sublist p t) phrases)"
    unfolding score_def by (induction phrases) auto
  also have "\<dots> = card (set (filter (\<lambda>p. sublist p t) phrases))"
    using assms by (simp only: distinct_card distinct_filter)
  also have "set (filter (\<lambda>p. sublist p t) phrases) = {p \<in> set phrases. sublist p t}"
    by auto
  finally show ?thesis .
qed

lemma distinct_success_phrases: "distinct success_phrases"
  by (simp add: success_phrases_def)

lemma distinct_failure_phrases: "distinct failure_phrases"
  by (simp add: failure_phrases_def)

lemma distinct_svc_success_phrases: "distinct svc_success_phrases"
  by (simp add: svc_success_phrases_def)

lemma distinct_svc_failure_phrases: "distinct svc_failure_phrases"
  by (simp add: svc_failure_phrases_def)

lemma sublist_append_no_new_match:
  assumes "no_new_match n b" "sublist n (a @ b)"
  shows "sublist n a"
proof -
  from assms(2) consider "sublist n a" | "sublist n b"
    | n1 n2 where "n = n1 @ n2" "suffix n1 a" "prefix n2 b"
    by (auto simp: sublist_append)
  then show ?thesis
  proof cases
    case 1
    then show ?thesis .
  next
    case 2
    with assms(1) show ?thesis by (simp add: no_new_match_def)
  next
    case 3
    show ?thesis
    proof (cases "n2 = []")
      case True
      with 3 show ?thesis by auto
    next
      case n2: False
      show ?thesis
      proof (cases "n1 = []")
        case True
        with 3 have "sublist n b" by auto
        with assms(1) show ?thesis by (simp add: no_new_match_def)
      next
        case False
        then have "1 \<le> length n1" by (cases n1) auto
        with n2 3 have idx: "length n1 \<in> set [1..<length n]"
          and dr: "drop (length n1) n = n2" by auto
        from assms(1) have "\<forall>i \<in> set [1..<length n]. \<not> prefix (drop i n) b"
          unfolding no_new_match_def list_all_iff by blast
        with idx have "\<not> prefix (drop (length n1) n) b" by blast
        with dr 3 show ?thesis by simp
      qed
    qed
  qed
qed

lemma no_new_match_phrases:
  "list_all (\<lambda>n. list_all (\<lambda>p. no_new_match n (CHR '' '' # p)) success_phrases) failure_phrases"
  by code_simp

lemma lower_success_phrases: "list_all (\<lambda>p. lower p = p) success_phrases"
  by code_simp

lemma score_mono:
  assumes "\<And>p. p \<in> set phrases \<Longrightarrow> sublist p t \<Longrightarrow> sublist p t'"
  shows "score phrases t \<le> score phrases t'"
  using assms unfolding score_def by (induction phrases) (auto intro: add_mono)

section \<open>Auxiliary facts about the store of the call service\<close>

lemma db_get_call_ident: "db_get_call st cid = Some c \<Longrightarrow> call_ident c = cid \<and> c \<in> set st"
  unfolding db_get_call_def by (auto simp: find_Some_iff)

lemma call_ident_merge_updates: "call_ident (merge_updates u c) = call_ident c"
  by (simp add: merge_updates_def)

lemma db_get_call_map:
  assumes "\<And>c. call_ident (f c) = call_ident c"
  shows "db_get_call (map f st) cid = map_option f (db_get_call st cid)"
  unfolding db_get_call_def using assms by (induction st) auto

lemma snd_db_update_call:
  "snd (db_update_call st i u) =
     map (\<lambda>c. if call_ident c = i then merge_updates u c else c) st"
proof (cases "db_get_call st i")
  case None
  then have "\<forall>c \<in> set st. call_ident c \<noteq> i"
    by (auto simp: db_get_call_def find_None_iff)
  then have "map (\<lambda>c. if call_ident c = i then merge_updates u c else c) st = st"
    by (induction st) auto
  with None show ?thesis by (simp add: db_update_call_def)
next
  case (Some c)
  then show ?thesis by (simp add: db_update_call_def)
qed

lemma db_get_call_update:
  "db_get_call (snd (db_update_call st i u)) cid =
     (if cid = i then map_option (merge_updates u) (db_get_call st cid)
      else db_get_call st cid)"
proof -
  have "db_get_call (map (\<lambda>c. if call_ident c = i then merge_updates u c else c) st) cid =
        map_option (\<lambda>c. if call_ident c = i then merge_updates u c else c) (db_get_call st cid)"
    by (rule db_get_call_map) (simp add: call_ident_merge_updates)
  then show ?thesis
    by (cases "db_get_call st cid") (auto simp: snd_db_update_call dest: db_get_call_ident)
qed

lemma db_get_call_unique:
  assumes "distinct (map call_ident st)" "db_get_call st cid = Some c"
    "c' \<in> set st" "call_ident c' = cid"
  shows "c' = c"
proof -
  from assms(2) have "c \<in> set st" "call_ident c = cid" by (auto dest: db_get_call_ident)
  with assms(1,3,4) show ?thesis by (auto simp: distinct_map inj_on_def)
qed

lemma set_db_get_calls: "set (db_get_calls st limit offset) \<subseteq> set st"
  by (auto simp: db_get_calls_def dest!: in_set_takeD in_set_dropD)

text \<open>
  \<open>CallService.terminate_call\<close> has the guard: it succeeds exactly for a stored call
  that is dialing or in progress, then the call is terminated with a completion time;
  in every other case the store is unchanged.
\<close>

lemma svc_terminate_call_guard:
  "fst (svc_terminate_call st now cid) \<longleftrightarrow>
     (\<exists>c. db_get_call st cid = Some c \<and> (status c = DIALING \<or> status c = IN_PROGRESS))"
  by (cases "db_get_call st cid") (auto simp: svc_terminate_call_def db_update_call_def)

lemma svc_terminate_call_done:
  assumes "fst (svc_terminate_call st now cid)"
  shows "\<exists>c'. db_get_call (snd (svc_terminate_call st now cid)) cid = Some c' \<and>
           status c' = TERMINATED \<and> completed_at c' = Some now"
proof -
  from assms obtain c where c: "db_get_call st cid = Some c"
      "status c = DIALING \<or> status c = IN_PROGRESS"
    by (auto simp: svc_terminate_call_guard)
  then have "svc_terminate_call st now cid =
      db_update_call st cid (no_updates\<lparr> u_status := Some TERMINATED, u_completed_at := Some now \<rparr>)"
    by (auto simp: svc_terminate_call_def)
  with c show ?thesis
    by (simp add: db_get_call_update merge_updates_def no_updates_def)
qed

lemma svc_terminate_call_refused:
  "\<not> fst (svc_terminate_call st now cid) \<Longrightarrow> snd (svc_terminate_call st now cid) = st"
  by (cases "db_get_call st cid")
     (auto simp: svc_terminate_call_def db_update_call_def split: if_splits)

lemma merge_cleanup_updates_twice:
  "merge_updates (cleanup_updates now) (merge_updates (cleanup_updates now) c) =
     merge_updates (cleanup_updates now) c"
  by (simp add: merge_updates_def cleanup_updates_def no_updates_def)

lemma svc_cleanup_loop_store:
  "snd (svc_cleanup_loop now cs n st) =
     map (\<lambda>c. if call_ident c \<in> call_ident ` set cs
               then merge_updates (cleanup_updates now) c else c) st"
proof (induction cs arbitrary: n st)
  case Nil
  then show ?case by simp
next
  case (Cons x cs)
  let ?u = "cleanup_updates now"
  let ?st1 = "snd (db_update_call st (call_ident x) ?u)"
  have "snd (svc_cleanup_loop now (x # cs) n st) =
        snd (svc_cleanup_loop now cs
               (if fst (db_update_call st (call_ident x) ?u) then n + 1 else n) ?st1)"
    by (cases "db_update_call st (call_ident x) ?u") auto
  also have "\<dots> = map (\<lambda>c. if call_ident c \<in> call_ident ` set cs
                            then merge_updates ?u c else c) ?st1"
    by (rule Cons.IH)
  also have "\<dots> = map (\<lambda>c. if call_ident c \<in> call_ident ` set (x # cs)
                            then merge_updates ?u c else c) st"
    by (auto simp: snd_db_update_call call_ident_merge_updates merge_cleanup_updates_twice)
  finally show ?case .
qed

lemma svc_cleanup_stuck_calls_store:
  "snd (svc_cleanup_stuck_calls st now) =
     map (\<lambda>c. if call_ident c \<in> call_ident `
                     set (filter (svc_is_stuck (now - 30 * 60)) (db_get_calls st 1000 0))
               then merge_updates (cleanup_updates now) c else c) st"
  by (simp add: svc_cleanup_stuck_calls_def Let_def svc_cleanup_loop_store)

lemma svc_cleanup_stuck_calls_untouched:
  assumes "cid \<notin> call_ident ` set (db_get_calls st 1000 0)"
  shows "db_get_call (snd (svc_cleanup_stuck_calls st now)) cid = db_get_call st cid"
proof -
  let ?cs = "filter (svc_is_stuck (now - 30 * 60)) (db_get_calls st 1000 0)"
  let ?f = "\<lambda>c. if call_ident c \<in> call_ident ` set ?cs
                 then merge_updates (cleanup_updates now) c else c"
  have "db_get_call (map ?f st) cid = map_option ?f (db_get_call st cid)"
    by (rule db_get_call_map) (simp add: call_ident_merge_updates)
  moreover have "?f c = c" if "db_get_call st cid = Some c" for c
  proof -
    from that have "call_ident c = cid" by (auto dest: db_get_call_ident)
    with assms have "call_ident c \<notin> call_ident ` set ?cs" by auto
    then show ?thesis by simp
  qed
  ultimately show ?thesis
    by (cases "db_get_call st cid") (simp_all add: svc_cleanup_stuck_calls_store)
qed

lemma svc_cleanup_stuck_calls_get:
  assumes "distinct (map call_ident st)" "db_get_call st cid = Some c"
  shows "db_get_call (snd (svc_cleanup_stuck_calls st now)) cid =
        Some (if c \<in> set (db_get_calls st 1000 0) \<and>
                 (status c = DIALING \<or> status c = IN_PROGRESS \<or> status c = INITIATING) \<and>
                 created_at c < now - 30 * 60
              then c\<lparr> status := FAILED,
                      error_message := Some ''Call timeout - automatically cleaned up'',
                      completed_at := Some now \<rparr>
              else c)"
proof -
  let ?cs = "filter (svc_is_stuck (now - 30 * 60)) (db_get_calls st 1000 0)"
  let ?f = "\<lambda>c. if call_ident c \<in> call_ident ` set ?cs
                 then merge_updates (cleanup_updates now) c else c"
  have "db_get_call (map ?f st) cid = map_option ?f (db_get_call st cid)"
    by (rule db_get_call_map) (simp add: call_ident_merge_updates)
  with assms(2) have get: "db_get_call (snd (svc_cleanup_stuck_calls st now)) cid = Some (?f c)"
    by (simp add: svc_cleanup_stuck_calls_store)
  from assms(2) have c: "c \<in> set st" "call_ident c = cid" by (auto dest: db_get_call_ident)
  have "call_ident c \<in> call_ident ` set ?cs \<longleftrightarrow>
          c \<in> set (db_get_calls st 1000 0) \<and> svc_is_stuck (now - 30 * 60) c"
  proof
    assume "call_ident c \<in> call_ident ` set ?cs"
    then obtain c' where c': "c' \<in> set (db_get_calls st 1000 0)"
        "svc_is_stuck (now - 30 * 60) c'" "call_ident c' = call_ident c"
      by auto
    from c'(1) set_db_get_calls have "c' \<in> set st" by blast
    with db_get_call_unique [OF assms(1) assms(2), of c'] c c'(3) have "c' = c" by simp
    with c' show "c \<in> set (db_get_calls st 1000 0) \<and> svc_is_stuck (now - 30 * 60) c"
      by simp
  next
    assume "c \<in> set (db_get_calls st 1000 0) \<and> svc_is_stuck (now - 30 * 60) c"
    then show "call_ident c \<in> call_ident ` set ?cs" by auto
  qed
  then show ?thesis
    unfolding get
    by (auto simp: svc_is_stuck_def merge_updates_def cleanup_updates_def no_updates_def)
qed

text \<open>
  In the store of 1001 calls the oldest call is not among the 1000 newest.
\<close>

lemma db_get_calls_large_store:
  "db_get_calls large_store 1000 0 =
     rev (map (\<lambda>i. example_call (filler_ident i) COMPLETED (int i + 1)) [0..<1000])"
proof -
  have "sorted (map created_at large_store)"
    by (auto simp: large_store_def example_call_def comp_def sorted_map
          intro: sorted_wrt_mono_rel [OF _ sorted_upt])
  then have "sort_key created_at large_store = large_store"
    by (rule sort_key_id_if_sorted)
  then show ?thesis
    by (simp add: db_get_calls_def large_store_def)
qed

lemma call_old_not_listed:
  "''call-old'' \<notin> call_ident ` set (db_get_calls large_store 1000 0)"
  by (auto simp: db_get_calls_large_store example_call_def filler_ident_def)

lemma get_call_cleanup_stuck_calls:
  "get_call cid (snd (cleanup_stuck_calls now db)) =
     map_option (\<lambda>r. if stuck now r
                      then set_columns [(Status, Text ''timeout''), (Completed_at, Timestamp now)] r
                      else r) (get_call cid db)"
  unfolding cleanup_stuck_calls_def snd_conv
  by (rule get_call_map) (simp add: rid_set_columns)

section \<open>Auxiliary facts about validation\<close>

text \<open>
  The validator lists every required field that is absent or empty, and the route of
  src/web/routes.py rejects the request with the whole list.
\<close>

lemma validate_call_request_lists_every_empty_field:
  assumes "field \<in> set validator_required_fields" "\<not> truthy (dict_get data field)"
  shows "field @ '' is required'' \<in> set (validate_call_request data)"
  using assms by (auto simp: validate_call_request_def)

lemma routes_create_call_rejects_every_empty_field:
  assumes "field \<in> set validator_required_fields" "\<not> truthy (dict_get data field)"
  shows "\<exists>errors. routes_create_call_rejection data = Some (400, ''Validation failed'', errors) \<and>
           field @ '' is required'' \<in> set errors"
  using validate_call_request_lists_every_empty_field [of field data] assms
  by (auto simp: routes_create_call_rejection_def Let_def)

section \<open>The model on the examples of the tests and of the specification\<close>

lemma example_table_created:
  "fst (snd (create_call example_request ''call-1'' 0 [])) = example_table"
  by (simp add: create_call_def required_fields_def example_request_def truthy_def
        dict_get_def dict_get_default_def text_of_def save_call_def example_table_def
        example_call_data_def Let_def)

text \<open>
  A JSON null under \<open>additional_info\<close> is stored as NULL; under a required field it
  counts as missing.
\<close>

lemma create_call_null_members:
  "column_of ''call-1'' Additional_info
     (fst (snd (create_call (example_request(''additional_info'' \<mapsto> JNull)) ''call-1'' 0 [])))
     = Some Null"
  "fst (create_call (example_request(''caller_name'' \<mapsto> JNull)) ''call-1'' 0 [])
     = Json_error 400 ''Missing required field: caller_name''"
  by (simp_all add: create_call_def required_fields_def example_request_def truthy_def
        dict_get_def dict_get_default_def text_of_def save_call_def Let_def column_of_def
        get_call_def new_row_def)

text \<open>
  The cases of tests/unit/test\_validators.py.
\<close>

lemma validate_call_request_tests:
  "validate_call_request example_request = []"
  "validate_call_request (\<lambda>field. None) =
     [''caller_name is required'', ''caller_phone is required'',
      ''phone_number is required'', ''account_action is required'']"
  by code_simp+

lemma validate_phone_number_tests:
  "list_all validate_phone_number
     [''+1234567890'', ''1234567890'', ''+12345678901'', ''(123) 456-7890'',
      ''123-456-7890'', ''123.456.7890'', ''+1 (123) 456-7890'']"
  "list_all (\<lambda>phone. \<not> validate_phone_number phone)
     [[], ''123'', ''12345'', ''abc1234567'', ''+'', ''++1234567890'', ''123456789012345678'']"
  by code_simp+

text \<open>
  The first scenario of section 8 of the specification on app.py: the provider accepts
  the call and reports \<open>completed\<close> with a transcript that ends in Confirmed; the
  record ends \<open>completed\<close> with the success flag set.
\<close>

lemma scenario_completed:
  "column_of ''call-1'' Status
     (initiate_call_async (example_provider [] (poll_ok ''completed'')) example_clock
        ''call-1'' example_table) = Some (Text ''completed'')"
  "column_of ''call-1'' Success
     (initiate_call_async (example_provider [] (poll_ok ''completed'')) example_clock
        ''call-1'' example_table) = Some (Integer 1)"
  by code_simp+

section \<open>The store: partial update\<close>




section \<open>Submitting a call\<close>

text \<open>
  C3, as the code has it.  For a request whose four required fields are present and
  not empty, and an identifier that is not yet in the table, \<open>create_call\<close> answers
  with the identifier, has stored the record with the status \<open>initiating\<close> (not
  \<open>pending\<close>) and the time of creation, has left every other record as it was, and
  has handed the call to a background thread; it takes no answer of the provider as
  an argument, so it returns before any request to the provider.
\<close>

theorem create_call_persists_initiating:
  assumes valid: "\<forall>field \<in> set required_fields. truthy (dict_get data field)"
    and fresh: "get_call new_id db = None"
  shows "fst (create_call data new_id now db) =
           Json_ok [(''call_id'', new_id), (''message'', ''Call initiated successfully'')] \<and>
         column_of new_id Status (fst (snd (create_call data new_id now db)))
           = Some (Text ''initiating'') \<and>
         column_of new_id Created_at (fst (snd (create_call data new_id now db)))
           = Some (Timestamp now) \<and>
         (\<forall>other. other \<noteq> new_id \<longrightarrow>
            get_call other (fst (snd (create_call data new_id now db))) = get_call other db) \<and>
         snd (snd (create_call data new_id now db)) \<noteq> None"
proof -
  from valid have fm: "first_missing data required_fields = None"
    by (simp add: first_missing_None_iff)
  from fresh have notin: "new_id \<notin> rid ` set db"
    by (simp add: get_call_None_iff)
  define cd where "cd = \<lparr> cd_id = new_id,
                     cd_phone_number = text_of (dict_get data ''phone_number''),
                     cd_caller_name = text_of (dict_get data ''caller_name''),
                     cd_caller_phone = text_of (dict_get data ''caller_phone''),
                     cd_account_action = text_of (dict_get data ''account_action''),
                     cd_additional_info = dict_get_default data ''additional_info'' [],
                     cd_status = ''initiating'' \<rparr>"
  have cc: "create_call data new_id now db =
          (Json_ok [(''call_id'', new_id), (''message'', ''Call initiated successfully'')],
           db @ [new_row cd now], Some cd)"
    using fm notin by (simp add: create_call_def save_call_def cd_def Let_def)
  have stored: "get_call new_id (db @ [new_row cd now]) = Some (new_row cd now)"
    by (rule get_call_append_new [OF fresh]) (simp add: rid_new_row cd_def)
  have others: "other \<noteq> new_id \<Longrightarrow> get_call other (db @ [new_row cd now]) = get_call other db"
    for other
    by (rule get_call_append_other) (simp add: rid_new_row cd_def)
  show ?thesis
    using stored others by (simp add: cc column_of_def new_row_def cd_def)
qed

theorem create_call_persists_initiating_witness:
  "truthy (dict_get example_request ''phone_number'') \<and> truthy (dict_get example_request ''caller_name'') \<and>
   truthy (dict_get example_request ''caller_phone'') \<and> truthy (dict_get example_request ''account_action'') \<and>
   get_call ''call-1'' [] = None \<and>
   column_of ''call-1'' Status (fst (snd (create_call example_request ''call-1'' 0 [])))
     = Some (Text ''initiating'')"
proof -
  have fields: "truthy (dict_get example_request ''phone_number'') \<and> truthy (dict_get example_request ''caller_name'') \<and>
      truthy (dict_get example_request ''caller_phone'') \<and> truthy (dict_get example_request ''account_action'')"
    by (simp add: example_request_def truthy_def dict_get_def)
  then have valid: "\<forall>field \<in> set required_fields. truthy (dict_get example_request field)"
    by (simp add: required_fields_def)
  have fresh: "get_call ''call-1'' [] = None"
    by (simp add: get_call_def)
  from create_call_persists_initiating [OF valid fresh, of 0] fields fresh
  show ?thesis by blast
qed

theorem create_call_pending_counterexample:
  "first_missing example_request required_fields = None \<and>
   fst (create_call example_request ''call-1'' 0 []) =
     Json_ok [(''call_id'', ''call-1''), (''message'', ''Call initiated successfully'')] \<and>
   column_of ''call-1'' Status (fst (snd (create_call example_request ''call-1'' 0 [])))
     \<noteq> Some (Text ''pending'')"
  by code_simp

section \<open>The poll loop\<close>




text \<open>
  C5.  The status of a call waiting in the queue of the provider is \<open>queue\<close>.  When the
  loop is still polling after \<open>k\<close> polls and the next seven polls (more than six
  consecutive polls, all within the budget of \<open>max_polls\<close>) answer \<open>queue\<close>, the loop
  stops at the sixth poll, before the budget is used up, and the record is \<open>failed\<close>
  with the message about the queue and a completion time.
\<close>

theorem stuck_in_queue_fails:
  assumes reach: "\<forall>i. 1 \<le> i \<and> i \<le> k \<longrightarrow> keeps_polling P i"
    and run: "\<forall>i. k < i \<and> i \<le> k + 7 \<longrightarrow> answers P i ''queue''"
    and fits: "k + 7 \<le> max_polls"
    and stored: "get_call call_id db \<noteq> None"
  shows "fst (monitor_loop P clock call_id 0 None db) = 6 \<and> 6 < max_polls \<and>
         column_of call_id Status (monitor_call_progress P clock call_id db)
           = Some (Text ''failed'') \<and>
         column_of call_id Error_message (monitor_call_progress P clock call_id db)
           = Some (Text ''Call stuck in queue - likely missing phone number or account issue'') \<and>
         column_of call_id Completed_at (monitor_call_progress P clock call_id db)
           = Some (Timestamp (clock 6))"
proof -
  from fits have k5: "k \<le> 5" by (simp add: max_polls_def)
  have keep: "\<forall>i. 0 < i \<and> i \<le> 5 \<longrightarrow> keeps_polling P i"
  proof (intro allI impI)
    fix i assume i: "0 < i \<and> i \<le> (5::nat)"
    show "keeps_polling P i"
    proof (cases "i \<le> k")
      case True
      with reach i show ?thesis by auto
    next
      case False
      with run i k5 have "answers P i ''queue''" by auto
      with i show ?thesis by (auto simp: keeps_polling_def answers_def finished_def)
    qed
  qed
  from monitor_loop_skip [OF keep, of clock call_id None db] obtain ls1 where
    eq1: "monitor_loop P clock call_id 0 None db = monitor_loop P clock call_id 5 ls1 db"
    by (auto simp: max_polls_def)
  from run k5 have q6: "answers P 6 ''queue''" by auto
  have it: "monitor_iteration P clock call_id (Suc 5) ls1 db = (True, Some ''queue'',
            snd (update_call call_id
                    [Set_status (Some ''failed''),
                     Set_error_message
                       (Some ''Call stuck in queue - likely missing phone number or account issue''),
                     Set_completed_at (Some (clock 6))] db))"
    using monitor_iteration_queue [OF q6, of clock call_id ls1 db] by simp
  from monitor_loop_break [OF it] eq1
  have loop: "monitor_loop P clock call_id 0 None db = (6, Some ''queue'',
            snd (update_call call_id
                    [Set_status (Some ''failed''),
                     Set_error_message
                       (Some ''Call stuck in queue - likely missing phone number or account issue''),
                     Set_completed_at (Some (clock 6))] db))"
    by (simp add: max_polls_def)
  from stored obtain r where "get_call call_id db = Some r" by auto
  then show ?thesis
    by (simp add: loop monitor_call_progress_def max_polls_def column_of_update_call
          assignment_simps)
qed

theorem stuck_in_queue_fails_witness:
  "keeps_polling (example_provider [poll_ok ''ringing'', poll_ok ''ringing''] (poll_ok ''queue'')) 1 \<and>
   keeps_polling (example_provider [poll_ok ''ringing'', poll_ok ''ringing''] (poll_ok ''queue'')) 2 \<and>
   answers (example_provider [poll_ok ''ringing'', poll_ok ''ringing''] (poll_ok ''queue'')) 3 ''queue'' \<and>
   answers (example_provider [poll_ok ''ringing'', poll_ok ''ringing''] (poll_ok ''queue'')) 9 ''queue'' \<and>
   2 + 7 \<le> max_polls \<and>
   get_call ''call-1'' example_table \<noteq> None \<and>
   fst (monitor_loop (example_provider [poll_ok ''ringing'', poll_ok ''ringing''] (poll_ok ''queue''))
          example_clock ''call-1'' 0 None example_table) = 6 \<and>
   column_of ''call-1'' Status
     (monitor_call_progress (example_provider [poll_ok ''ringing'', poll_ok ''ringing''] (poll_ok ''queue''))
        example_clock ''call-1'' example_table) = Some (Text ''failed'')"
proof -
  let ?P = "example_provider [poll_ok ''ringing'', poll_ok ''ringing''] (poll_ok ''queue'')"
  have k: "keeps_polling ?P 1" "keeps_polling ?P 2"
    by (simp_all add: keeps_polling_def example_provider_def scripted_def poll_ok_def
          call_status_of_def finished_def)
  have reach: "\<forall>i. 1 \<le> i \<and> i \<le> 2 \<longrightarrow> keeps_polling ?P i"
  proof (intro allI impI)
    fix i :: nat assume "1 \<le> i \<and> i \<le> 2"
    then have "i = 1 \<or> i = 2" by auto
    with k show "keeps_polling ?P i" by auto
  qed
  have q: "answers ?P i ''queue''" if "2 < i" for i
    using that by (simp add: example_provider_answers)
  then have run: "\<forall>i. 2 < i \<and> i \<le> 2 + 7 \<longrightarrow> answers ?P i ''queue''" by simp
  have fits: "2 + 7 \<le> max_polls" by (simp add: max_polls_def)
  have stored: "get_call ''call-1'' example_table \<noteq> None"
    by (simp add: example_table_stored)
  from stuck_in_queue_fails [OF reach run fits stored, of example_clock]
    k q [of 3] q [of 9] fits stored
  show ?thesis by simp
qed

text \<open>
  C6, evaluated.  Four polls answer \<open>in_progress\<close> and the fifth returns an error: the
  loop stops at the fifth poll and the record stays \<open>initiated\<close>, it is not marked
  \<open>failed\<close>.  Three errors in a row on the first three polls do not stop the loop: the
  fourth poll is made and its answer \<open>completed\<close> is written.
\<close>

theorem single_poll_error_evaluated:
  "fst (monitor_loop
          (example_provider [poll_ok ''in_progress'', poll_ok ''in_progress'',
             poll_ok ''in_progress'', poll_ok ''in_progress'', poll_error ''timed out'']
             (poll_ok ''completed''))
          example_clock ''call-1'' 0 None example_table) = 5 \<and>
   column_of ''call-1'' Status
     (initiate_call_async
        (example_provider [poll_ok ''in_progress'', poll_ok ''in_progress'',
           poll_ok ''in_progress'', poll_ok ''in_progress'', poll_error ''timed out'']
           (poll_ok ''completed''))
        example_clock ''call-1'' example_table) = Some (Text ''initiated'') \<and>
   fst (monitor_loop
          (example_provider [poll_error ''timed out'', poll_error ''timed out'',
             poll_error ''timed out''] (poll_ok ''completed''))
          example_clock ''call-1'' 0 None example_table) = 4 \<and>
   column_of ''call-1'' Status
     (initiate_call_async
        (example_provider [poll_error ''timed out'', poll_error ''timed out'',
           poll_error ''timed out''] (poll_ok ''completed''))
        example_clock ''call-1'' example_table) = Some (Text ''completed'')"
  by code_simp

section \<open>Validation on submit\<close>

text \<open>
  C2, evaluated on the route of app.py.  For a request in which two required fields
  are empty (\<open>phone_number\<close> is empty, \<open>caller_name\<close> is absent), \<open>create_call\<close>
  rejects with status 400 and stores nothing, but its message names only
  \<open>phone_number\<close>, the first empty field in the order of the loop.
\<close>

theorem create_call_reports_first_missing_field:
  "\<not> truthy (dict_get incomplete_request ''phone_number'') \<and>
   \<not> truthy (dict_get incomplete_request ''caller_name'') \<and>
   create_call incomplete_request ''call-1'' 0 [] =
     (Json_error 400 ''Missing required field: phone_number'', [], None)"
  by (simp add: incomplete_request_def truthy_def dict_get_def create_call_def
        required_fields_def)

section \<open>Terminating a call\<close>

text \<open>
  C4, evaluated on the route of app.py.  The route has no guard: for a call that is
  already \<open>completed\<close> it answers with success and the record becomes \<open>terminated\<close>;
  for an identifier that is not in the table it answers with success as well.
\<close>

theorem terminate_call_without_guard:
  "column_of ''call-1'' Status
     (initiate_call_async (example_provider [] (poll_ok ''completed'')) example_clock
        ''call-1'' example_table)
     = Some (Text ''completed'') \<and>
   fst (terminate_call ''call-1'' 99
     (initiate_call_async (example_provider [] (poll_ok ''completed'')) example_clock
        ''call-1'' example_table))
     = Json_ok [(''message'', ''Call terminated successfully'')] \<and>
   column_of ''call-1'' Status (snd (terminate_call ''call-1'' 99
     (initiate_call_async (example_provider [] (poll_ok ''completed'')) example_clock
        ''call-1'' example_table)))
     = Some (Text ''terminated'') \<and>
   get_call ''call-2'' example_table = None \<and>
   fst (terminate_call ''call-2'' 99 example_table)
     = Json_ok [(''message'', ''Call terminated successfully'')]"
  by code_simp

section \<open>The cleanup of stuck calls\<close>

text \<open>
  C7, as the code has it.  The route of app.py changes exactly the stored calls whose
  status is \<open>in_progress\<close> or \<open>dialing\<close> and that were created more than 30 minutes
  ago: their status becomes \<open>timeout\<close> and they get a completion time, every other
  column and every other record is kept.  The call service changes, in a store with
  distinct identifiers, exactly the calls that are among the 1000 newest, have the
  status \<open>DIALING\<close>, \<open>IN_PROGRESS\<close> or \<open>INITIATING\<close> and were created more than 30
  minutes ago: they become \<open>FAILED\<close> with a message and a completion time, every
  other call is kept.
\<close>

theorem cleanup_stuck_calls_effect:
  "(get_call cid db = Some r \<longrightarrow>
      (if (col r Status = Text ''in_progress'' \<or> col r Status = Text ''dialing'') \<and>
          (\<exists>t. col r Created_at = Timestamp t \<and> t < now - 30 * 60)
       then \<exists>r'. get_call cid (snd (cleanup_stuck_calls now db)) = Some r' \<and>
              col r' Status = Text ''timeout'' \<and> col r' Completed_at = Timestamp now \<and>
              (\<forall>c. c \<noteq> Status \<and> c \<noteq> Completed_at \<longrightarrow> col r' c = col r c)
       else get_call cid (snd (cleanup_stuck_calls now db)) = Some r)) \<and>
   (distinct (map call_ident st) \<and> db_get_call st cid = Some call \<longrightarrow>
      db_get_call (snd (svc_cleanup_stuck_calls st now)) cid =
        Some (if call \<in> set (db_get_calls st 1000 0) \<and>
                 (status call = DIALING \<or> status call = IN_PROGRESS \<or> status call = INITIATING) \<and>
                 created_at call < now - 30 * 60
              then call\<lparr> status := FAILED,
                      error_message := Some ''Call timeout - automatically cleaned up'',
                      completed_at := Some now \<rparr>
              else call))"
proof -
  have v1: "get_call cid db = Some r \<Longrightarrow>
      (if (col r Status = Text ''in_progress'' \<or> col r Status = Text ''dialing'') \<and>
          (\<exists>t. col r Created_at = Timestamp t \<and> t < now - 30 * 60)
       then \<exists>r'. get_call cid (snd (cleanup_stuck_calls now db)) = Some r' \<and>
              col r' Status = Text ''timeout'' \<and> col r' Completed_at = Timestamp now \<and>
              (\<forall>c. c \<noteq> Status \<and> c \<noteq> Completed_at \<longrightarrow> col r' c = col r c)
       else get_call cid (snd (cleanup_stuck_calls now db)) = Some r)"
    by (auto simp: get_call_cleanup_stuck_calls stuck_def set_columns_def split: sqlval.splits)
  from v1 svc_cleanup_stuck_calls_get [of st cid call now] show ?thesis by blast
qed

theorem cleanup_stuck_calls_effect_witness:
  "get_call ''call-old'' example_rows = Some (in_progress_row ''call-old'' 0) \<and>
   column_of ''call-old'' Status (snd (cleanup_stuck_calls 2400 example_rows))
     = Some (Text ''timeout'') \<and>
   column_of ''call-new'' Status (snd (cleanup_stuck_calls 2400 example_rows))
     = Some (Text ''in_progress'') \<and>
   distinct (map call_ident example_store) \<and>
   db_get_call example_store ''call-old'' = Some (example_call ''call-old'' IN_PROGRESS 0) \<and>
   example_call ''call-old'' IN_PROGRESS 0 \<in> set (db_get_calls example_store 1000 0) \<and>
   map_option status (db_get_call (snd (svc_cleanup_stuck_calls example_store 2400)) ''call-old'')
     = Some FAILED \<and>
   map_option status (db_get_call (snd (svc_cleanup_stuck_calls example_store 2400)) ''call-new'')
     = Some IN_PROGRESS"
proof -
  have old: "get_call ''call-old'' example_rows = Some (in_progress_row ''call-old'' 0)"
    by (simp add: example_rows_def get_call_def in_progress_row_def rid_new_row)
  have new: "get_call ''call-new'' example_rows = Some (in_progress_row ''call-new'' 2100)"
    by (simp add: example_rows_def get_call_def in_progress_row_def rid_new_row)
  have d: "distinct (map call_ident example_store)"
    by (simp add: example_store_def example_call_def)
  have sold: "db_get_call example_store ''call-old'' = Some (example_call ''call-old'' IN_PROGRESS 0)"
    by (simp add: example_store_def db_get_call_def example_call_def)
  have snew: "db_get_call example_store ''call-new'' = Some (example_call ''call-new'' IN_PROGRESS 2100)"
    by (simp add: example_store_def db_get_call_def example_call_def)
  have listed: "example_call ''call-old'' IN_PROGRESS 0 \<in> set (db_get_calls example_store 1000 0)"
    by (simp add: db_get_calls_def example_store_def example_call_def)
  from cleanup_stuck_calls_effect [of "''call-old''" example_rows "in_progress_row ''call-old'' 0"
        2400 example_store "example_call ''call-old'' IN_PROGRESS 0"] old d sold listed
  have 1: "column_of ''call-old'' Status (snd (cleanup_stuck_calls 2400 example_rows))
             = Some (Text ''timeout'')"
    and 2: "map_option status
              (db_get_call (snd (svc_cleanup_stuck_calls example_store 2400)) ''call-old'')
             = Some FAILED"
    by (auto simp: column_of_def in_progress_row_def new_row_def example_call_def)
  from cleanup_stuck_calls_effect [of "''call-new''" example_rows "in_progress_row ''call-new'' 2100"
        2400 example_store "example_call ''call-new'' IN_PROGRESS 2100"] new d snew
  have 3: "column_of ''call-new'' Status (snd (cleanup_stuck_calls 2400 example_rows))
             = Some (Text ''in_progress'')"
    and 4: "map_option status
              (db_get_call (snd (svc_cleanup_stuck_calls example_store 2400)) ''call-new'')
             = Some IN_PROGRESS"
    by (auto simp: column_of_def in_progress_row_def new_row_def example_call_def)
  from old d sold listed 1 2 3 4 show ?thesis by simp
qed

text \<open>
  C7, as the claim states it, fails.  In app.py the call in progress that is 40 minutes
  old becomes \<open>timeout\<close>, not \<open>failed\<close>, and gets no error message.  In the call
  service a pending call that is 40 minutes old, which is in a non-terminal state,
  stays pending; and in the store of 1001 calls the call in progress that is 40 minutes
  old is not among the 1000 newest calls and stays in progress.
\<close>

theorem cleanup_counterexample:
  "column_of ''call-old'' Status (snd (cleanup_stuck_calls 2400 example_rows))
     = Some (Text ''timeout'') \<and>
   column_of ''call-old'' Error_message (snd (cleanup_stuck_calls 2400 example_rows))
     = Some Null \<and>
   map_option status (db_get_call example_store ''call-pending'') = Some PENDING \<and>
   map_option created_at (db_get_call example_store ''call-pending'') = Some 0 \<and>
   map_option status
     (db_get_call (snd (svc_cleanup_stuck_calls example_store 2400)) ''call-pending'')
     = Some PENDING \<and>
   length large_store = 1001 \<and>
   db_get_call large_store ''call-old'' = Some (example_call ''call-old'' IN_PROGRESS 0) \<and>
   map_option status
     (db_get_call (snd (svc_cleanup_stuck_calls large_store 2400)) ''call-old'')
     = Some IN_PROGRESS"
proof -
  have small:
    "column_of ''call-old'' Status (snd (cleanup_stuck_calls 2400 example_rows))
       = Some (Text ''timeout'') \<and>
     column_of ''call-old'' Error_message (snd (cleanup_stuck_calls 2400 example_rows))
       = Some Null \<and>
     map_option status (db_get_call example_store ''call-pending'') = Some PENDING \<and>
     map_option created_at (db_get_call example_store ''call-pending'') = Some 0 \<and>
     map_option status
       (db_get_call (snd (svc_cleanup_stuck_calls example_store 2400)) ''call-pending'')
       = Some PENDING"
    by code_simp
  have len: "length large_store = 1001"
    by (simp add: large_store_def)
  have old: "db_get_call large_store ''call-old'' = Some (example_call ''call-old'' IN_PROGRESS 0)"
    by (simp add: large_store_def db_get_call_def example_call_def)
  have "db_get_call (snd (svc_cleanup_stuck_calls large_store 2400)) ''call-old''
          = db_get_call large_store ''call-old''"
    by (rule svc_cleanup_stuck_calls_untouched) (rule call_old_not_listed)
  with old have kept:
    "map_option status
       (db_get_call (snd (svc_cleanup_stuck_calls large_store 2400)) ''call-old'')
       = Some IN_PROGRESS"
    by (simp add: example_call_def)
  from small len old kept show ?thesis by simp
qed

section \<open>The classifier\<close>

text \<open>
  C8, as the code has it.  \<open>analyze_call_success\<close> returns true if and only if the
  transcript is present and not empty and the number of success phrases that are found
  in the lower-cased text (each phrase counted once, however often it occurs) is
  greater than the number of failure phrases that are found in it; the same holds for
  the classifier of the call service with its phrase lists.  For a missing or empty
  transcript both return false.
\<close>

theorem analyze_call_success_counts_phrases:
  "(analyze_call_success tr call_id \<longleftrightarrow>
      (\<exists>t. tr = Some t \<and> t \<noteq> [] \<and>
         card {p \<in> set success_phrases. sublist p (lower t)}
           > card {p \<in> set failure_phrases. sublist p (lower t)})) \<and>
   (svc_analyze_call_success tr \<longleftrightarrow>
      (\<exists>t. tr = Some t \<and> t \<noteq> [] \<and>
         card {p \<in> set svc_success_phrases. sublist p (lower t)}
           > card {p \<in> set svc_failure_phrases. sublist p (lower t)})) \<and>
   \<not> analyze_call_success None call_id \<and> \<not> analyze_call_success (Some []) call_id \<and>
   \<not> svc_analyze_call_success None \<and> \<not> svc_analyze_call_success (Some [])"
  by (cases tr)
     (simp_all add: analyze_call_success_def svc_analyze_call_success_def
        score_eq_card distinct_success_phrases distinct_failure_phrases
        distinct_svc_success_phrases distinct_svc_failure_phrases)

text \<open>
  C8, as the claim states it, fails.  In \<open>done done unable to\<close> there are two
  occurrences of a success phrase and one of a failure phrase, so the count of
  occurrences classifies it as a success; the code finds one success phrase and one
  failure phrase and returns false.
\<close>

theorem occurrence_count_counterexample:
  "classify_by_occurrences (Some ''done done unable to'') \<and>
   \<not> analyze_call_success (Some ''done done unable to'') ''call-1'' \<and>
   \<not> svc_analyze_call_success (Some ''done done unable to'')"
  by code_simp

text \<open>
  C9, as the code has it.  When a transcript is classified as a success, the
  transcript extended by a space and one of the success phrases is classified as a
  success too.
\<close>

theorem appended_phrase_keeps_success:
  assumes "analyze_call_success (Some t) call_id" "p \<in> set success_phrases"
  shows "analyze_call_success (Some (t @ '' '' @ p)) call_id"
proof -
  from assms(2) lower_success_phrases have lp: "lower p = p"
    by (auto simp: list_all_iff)
  have low: "lower (t @ CHR '' '' # p) = lower t @ (CHR '' '' # p)"
    using lp by (simp add: lower_def lower_char_def)
  have pos: "score success_phrases (lower t) \<le> score success_phrases (lower t @ (CHR '' '' # p))"
    by (rule score_mono) (auto simp: sublist_append)
  have neg: "score failure_phrases (lower t @ (CHR '' '' # p)) \<le> score failure_phrases (lower t)"
  proof (rule score_mono)
    fix n assume n: "n \<in> set failure_phrases"
      and s: "sublist n (lower t @ (CHR '' '' # p))"
    from n assms(2) no_new_match_phrases have "no_new_match n (CHR '' '' # p)"
      by (auto simp: list_all_iff)
    from sublist_append_no_new_match [OF this s] show "sublist n (lower t)" .
  qed
  from assms(1) have "t \<noteq> []"
      "score success_phrases (lower t) > score failure_phrases (lower t)"
    by (auto simp: analyze_call_success_def split: if_splits)
  with pos neg show ?thesis
    by (simp add: analyze_call_success_def low)
qed

theorem appended_phrase_keeps_success_witness:
  "analyze_call_success (Some ''done'') ''call-1'' \<and> ''confirmed'' \<in> set success_phrases \<and>
   analyze_call_success (Some (''done'' @ '' '' @ ''confirmed'')) ''call-1''"
proof -
  have a: "analyze_call_success (Some ''done'') ''call-1''" by code_simp
  have b: "''confirmed'' \<in> set success_phrases" by (simp add: success_phrases_def)
  from appended_phrase_keeps_success [OF a b] a b show ?thesis by blast
qed

text \<open>
  C9, as the claim states it, fails.  \<open>done not authorize\<close> is classified as a
  success; with \<open>done\<close> appended it contains \<open>not authorized\<close> and still only one
  success phrase, and is classified as a failure.
\<close>

theorem appended_phrase_counterexample:
  "''done'' \<in> set success_phrases \<and>
   analyze_call_success (Some ''done not authorize'') ''call-1'' \<and>
   \<not> analyze_call_success (Some (''done not authorize'' @ ''done'')) ''call-1''"
  by code_simp

end
